theory Spec2Isabelle
  imports Complex_Main "HOL-Library.Log_Nat"
begin

section \<open>Python values used by meta.py\<close>

text \<open>
  An exception is an instance of a subclass of \<open>Exception\<close>: its class name and the
  text that \<open>str(e)\<close> returns. Every fallible operation returns \<open>exn + 'a\<close>, with
  \<open>Inl\<close> for a raised exception.
\<close>

datatype exn = Exn (exn_class: string) (exn_str: string)

subsection \<open>Floats\<close>

text \<open>
  A Python float is an IEEE 754 binary64 value: a finite value (held as the rational it
  denotes, \<open>Fin 0\<close> being \<open>+0.0\<close>), \<open>-0.0\<close>, the two infinities, or NaN. Arithmetic
  computes the exact rational result and rounds it to the nearest representable value,
  ties to even; a result of magnitude at least \<open>2^1024 - 2^970\<close> overflows.
\<close>

datatype pyfloat = Fin rat | NegZero | PInf | NInf | NaN

definition ilog2 :: "rat \<Rightarrow> int" where
  \<comment> \<open>\<open>\<lfloor>log\<^sub>2 q\<rfloor>\<close> for \<open>q > 0\<close>, from the bit lengths of numerator and denominator.\<close>
  "ilog2 q = (case quotient_of q of (a, b) \<Rightarrow>
     (let e0 = bitlen a - bitlen b in if 2 powi e0 \<le> q then e0 else e0 - 1))"

definition round_half_even :: "rat \<Rightarrow> int" where
  "round_half_even t =
     (let n = \<lfloor>t\<rfloor>; f = t - of_int n
      in if f < 1 / 2 then n else if 1 / 2 < f then n + 1 else if even n then n else n + 1)"

definition grid :: "rat \<Rightarrow> rat" where
  \<comment> \<open>nearest multiple of the unit in the last place of \<open>a > 0\<close>; exponents below
      \<open>-1022\<close> share the subnormal spacing \<open>2^-1074\<close>.\<close>
  "grid a = (let e = max (ilog2 a) (- 1022); u = 2 powi (e - 52)
             in of_int (round_half_even (a / u)) * u)"

definition overflow_threshold :: rat where
  "overflow_threshold = 2 ^ 1024 - 2 ^ 970"

definition fl_round :: "rat \<Rightarrow> pyfloat" where
  "fl_round q =
     (if q = 0 then Fin 0
      else if overflow_threshold \<le> \<bar>q\<bar> then (if 0 < q then PInf else NInf)
      else (let g = grid \<bar>q\<bar>
            in if g = 0 then (if 0 < q then Fin 0 else NegZero)
               else Fin (if 0 < q then g else - g)))"

fun fl_is_zero :: "pyfloat \<Rightarrow> bool" where
  "fl_is_zero (Fin q) = (q = 0)"
| "fl_is_zero NegZero = True"
| "fl_is_zero _ = False"

fun fl_is_inf :: "pyfloat \<Rightarrow> bool" where
  "fl_is_inf PInf = True"
| "fl_is_inf NInf = True"
| "fl_is_inf _ = False"

fun fl_negative :: "pyfloat \<Rightarrow> bool" where
  "fl_negative (Fin q) = (q < 0)"
| "fl_negative NegZero = True"
| "fl_negative NInf = True"
| "fl_negative _ = False"

definition signed_zero :: "bool \<Rightarrow> pyfloat" where
  "signed_zero neg = (if neg then NegZero else Fin 0)"

definition signed_inf :: "bool \<Rightarrow> pyfloat" where
  "signed_inf neg = (if neg then NInf else PInf)"

fun fl_neg :: "pyfloat \<Rightarrow> pyfloat" where
  "fl_neg (Fin q) = (if q = 0 then NegZero else Fin (- q))"
| "fl_neg NegZero = Fin 0"
| "fl_neg PInf = NInf"
| "fl_neg NInf = PInf"
| "fl_neg NaN = NaN"

fun fl_add :: "pyfloat \<Rightarrow> pyfloat \<Rightarrow> pyfloat" where
  "fl_add NaN _ = NaN"
| "fl_add _ NaN = NaN"
| "fl_add PInf NInf = NaN"
| "fl_add NInf PInf = NaN"
| "fl_add PInf _ = PInf"
| "fl_add _ PInf = PInf"
| "fl_add NInf _ = NInf"
| "fl_add _ NInf = NInf"
| "fl_add NegZero NegZero = NegZero"
| "fl_add NegZero (Fin b) = Fin b"
| "fl_add (Fin a) NegZero = Fin a"
| "fl_add (Fin a) (Fin b) = (if a + b = 0 then Fin 0 else fl_round (a + b))"

fun fl_value :: "pyfloat \<Rightarrow> rat" where
  "fl_value (Fin q) = q"
| "fl_value _ = 0"

definition fl_div :: "pyfloat \<Rightarrow> pyfloat \<Rightarrow> pyfloat" where
  "fl_div x y =
     (let neg = (fl_negative x \<noteq> fl_negative y)
      in if x = NaN \<or> y = NaN then NaN
         else if fl_is_inf x then (if fl_is_inf y then NaN else signed_inf neg)
         else if fl_is_inf y then signed_zero neg
         else if fl_is_zero y then (if fl_is_zero x then NaN else signed_inf neg)
         else if fl_is_zero x then signed_zero neg
         else fl_round (fl_value x / fl_value y))"

definition fl_eq :: "pyfloat \<Rightarrow> pyfloat \<Rightarrow> bool" where
  \<comment> \<open>Python's \<open>==\<close> on floats: NaN equals nothing, the two zeros are equal.\<close>
  "fl_eq x y = (x \<noteq> NaN \<and> y \<noteq> NaN \<and> (x = y \<or> (fl_is_zero x \<and> fl_is_zero y)))"

definition float_of_int :: "int \<Rightarrow> exn + pyfloat" where
  \<comment> \<open>\<open>float(n)\<close> for a Python int.\<close>
  "float_of_int n =
     (if overflow_threshold \<le> \<bar>of_int n\<bar>
      then Inl (Exn ''OverflowError'' ''int too large to convert to float'')
      else Inr (fl_round (of_int n)))"

definition float_truediv :: "pyfloat \<Rightarrow> pyfloat \<Rightarrow> exn + pyfloat" where
  \<comment> \<open>\<open>x / y\<close> on floats.\<close>
  "float_truediv x y =
     (if fl_is_zero y then Inl (Exn ''ZeroDivisionError'' ''float division by zero'')
      else Inr (fl_div x y))"

subsection \<open>EXIF tags and dictionary values\<close>

text \<open>
  An element of a tag's \<open>values\<close>: an exifread \<open>Ratio\<close> with its \<open>num\<close> and \<open>den\<close>, an
  int, or a string. An \<open>IfdTag\<close> has the text \<open>str(tag)\<close> returns and its \<open>values\<close>,
  a list or (for ASCII tags) a string.
\<close>

datatype pyobj = Ratio (num: int) (den: int) | PyInt int | PyStr string

datatype tag_values = ValList "pyobj list" | ValStr string

record ifd_tag =
  printable :: string
  tag_values :: tag_values

datatype pyvalue = VStr string | VInt int | VTag ifd_tag | VNone

text \<open>
  A \<open>dict\<close> with string keys, in insertion order. \<open>d[k] = v\<close> replaces the value of an
  existing key in place and appends a new key; \<open>d.update(e)\<close> stores the items of \<open>e\<close>
  in order.
\<close>

type_synonym 'v dict = "(string \<times> 'v) list"

fun dict_set :: "'v dict \<Rightarrow> string \<Rightarrow> 'v \<Rightarrow> 'v dict" where
  "dict_set [] k v = [(k, v)]"
| "dict_set ((k', v') # d) k v =
     (if k' = k then (k', v) # d else (k', v') # dict_set d k v)"

definition dict_get :: "'v dict \<Rightarrow> string \<Rightarrow> 'v option" where
  "dict_get d k = map_of d k"

definition dict_update :: "'v dict \<Rightarrow> 'v dict \<Rightarrow> 'v dict" where
  "dict_update d e = foldl (\<lambda>m (k, v). dict_set m k v) d e"

definition dict_keys :: "'v dict \<Rightarrow> string list" where
  "dict_keys d = map fst d"

subsection \<open>Strings\<close>

definition quoted :: "string \<Rightarrow> string" where
  \<comment> \<open>a name between apostrophes, as Python's messages print it\<close>
  "quoted s = CHR 0x27 # s @ [CHR 0x27]"

definition lower_char :: "char \<Rightarrow> char" where
  \<comment> \<open>the letters A to Z go to a to z; no other character lowers to an ASCII letter
      of \<open>.heic\<close>\<close>
  "lower_char c =
     (case map_of (zip ''ABCDEFGHIJKLMNOPQRSTUVWXYZ'' ''abcdefghijklmnopqrstuvwxyz'') c of
        None \<Rightarrow> c
      | Some l \<Rightarrow> l)"

definition lower :: "string \<Rightarrow> string" where
  "lower s = map lower_char s"

definition endswith :: "string \<Rightarrow> string \<Rightarrow> bool" where
  "endswith s suffix =
     (length suffix \<le> length s \<and> drop (length s - length suffix) s = suffix)"

fun digits :: "nat \<Rightarrow> string" where
  "digits n =
     (if n < 10 then [''0123456789'' ! n]
      else digits (n div 10) @ [''0123456789'' ! (n mod 10)])"

definition str_int :: "int \<Rightarrow> string" where
  "str_int i = (if i < 0 then CHR ''-'' # digits (nat (- i)) else digits (nat i))"

fun split_first :: "string \<Rightarrow> (string \<times> string) option" where
  \<comment> \<open>\<open>item.split(": ", 1)\<close> when \<open>": " in item\<close>: the text before and after the
      leftmost \<open>": "\<close>.\<close>
  "split_first [] = None"
| "split_first [c] = None"
| "split_first (c # c' # cs) =
     (if c = CHR '':'' \<and> c' = CHR '' '' then Some ([], cs)
      else (case split_first (c' # cs) of
              None \<Rightarrow> None
            | Some (a, b) \<Rightarrow> Some (c # a, b)))"

section \<open>The collaborators\<close>

text \<open>
  The image as \<open>PIL.Image.open\<close> returns it: \<open>bits\<close> is an attribute only some image
  classes have, \<open>info\<close> is a dict of which the code reads two keys.
\<close>

record pil_image =
  img_format :: "string option"
  img_mode :: string
  img_width :: int
  img_height :: int
  img_bits :: "pyvalue option"
  info_compression :: "pyvalue option"
  info_icc_profile :: "string option"

text \<open>
  The filesystem and the libraries the module calls (\<open>os.path\<close>, \<open>time\<close>, PIL,
  exifread, hachoir, \<open>repr\<close> of a float), as functions of their arguments.
  \<open>createParser\<close> and \<open>extractMetadata\<close> return \<open>None\<close> for a falsy result;
  \<open>exportPlaintext\<close> returns a list of lines, or \<open>None\<close>.
\<close>

record ('p, 'm) world =
  os_path_basename :: "string \<Rightarrow> string"
  os_path_getsize :: "string \<Rightarrow> exn + int"
  os_path_getctime :: "string \<Rightarrow> exn + pyfloat"
  os_path_getmtime :: "string \<Rightarrow> exn + pyfloat"
  time_ctime :: "pyfloat \<Rightarrow> exn + string"
  Image_open :: "string \<Rightarrow> exn + pil_image"
  open_rb :: "string \<Rightarrow> exn + string"
  exifread_process_file :: "string \<Rightarrow> exn + ifd_tag dict"
  float_repr :: "pyfloat \<Rightarrow> string"
  createParser :: "string \<Rightarrow> exn + 'p option"
  extractMetadata :: "'p \<Rightarrow> exn + 'm option"
  exportPlaintext :: "'m \<Rightarrow> exn + string list option"

section \<open>convert\_gps\<close>

datatype gps_arg = ArgList "pyobj list" | ArgTag ifd_tag

definition as_list :: "gps_arg \<Rightarrow> pyobj list" where
  \<comment> \<open>\<open>values\<close> itself when it is a list, \<open>list(values.values)\<close> otherwise.\<close>
  "as_list v =
     (case v of
        ArgList xs \<Rightarrow> xs
      | ArgTag t \<Rightarrow> (case tag_values t of ValList xs \<Rightarrow> xs | ValStr s \<Rightarrow> map (\<lambda>c. PyStr [c]) s))"

fun ratio_to_float :: "pyobj \<Rightarrow> exn + pyfloat" where
  \<comment> \<open>\<open>float(v.num) / float(v.den)\<close>\<close>
  "ratio_to_float (Ratio n d) =
     (case float_of_int n of
        Inl e \<Rightarrow> Inl e
      | Inr a \<Rightarrow> (case float_of_int d of Inl e \<Rightarrow> Inl e | Inr b \<Rightarrow> float_truediv a b))"
| "ratio_to_float (PyInt i) =
     Inl (Exn ''AttributeError'' (quoted ''int'' @ '' object has no attribute '' @ quoted ''num''))"
| "ratio_to_float (PyStr s) =
     Inl (Exn ''AttributeError'' (quoted ''str'' @ '' object has no attribute '' @ quoted ''num''))"

fun comprehension :: "('a \<Rightarrow> exn + 'b) \<Rightarrow> 'a list \<Rightarrow> exn + 'b list" where
  \<comment> \<open>\<open>[f(v) for v in xs]\<close>: the first exception ends it.\<close>
  "comprehension f [] = Inr []"
| "comprehension f (x # xs) =
     (case f x of
        Inl e \<Rightarrow> Inl e
      | Inr y \<Rightarrow> (case comprehension f xs of Inl e \<Rightarrow> Inl e | Inr ys \<Rightarrow> Inr (y # ys)))"

definition dms :: "pyfloat \<Rightarrow> pyfloat \<Rightarrow> pyfloat \<Rightarrow> pyfloat" where
  \<comment> \<open>\<open>d + (m / 60.0) + (s / 3600.0)\<close>\<close>
  "dms d m s = fl_add (fl_add d (fl_div m (Fin 60))) (fl_div s (Fin 3600))"

definition convert_to_degrees :: "gps_arg \<Rightarrow> exn + pyfloat" where
  "convert_to_degrees v =
     (case comprehension ratio_to_float (as_list v) of
        Inl e \<Rightarrow> Inl e
      | Inr [d, m, s] \<Rightarrow> Inr (dms d m s)
      | Inr fs \<Rightarrow>
          Inl (Exn ''ValueError''
                 (if length fs < 3 then ''not enough values to unpack''
                  else ''too many values to unpack'')))"

definition convert_gps :: "gps_arg \<Rightarrow> string \<Rightarrow> exn + pyfloat" where
  "convert_gps v ref =
     (case convert_to_degrees v of
        Inl e \<Rightarrow> Inl e
      | Inr degrees \<Rightarrow> Inr (if ref \<in> set [''S'', ''W''] then fl_neg degrees else degrees))"

section \<open>extract\_exif\_metadata\<close>

definition stringify_tags :: "ifd_tag dict \<Rightarrow> pyvalue dict" where
  \<comment> \<open>\<open>for tag, value in tags.items(): metadata[tag] = str(value)\<close>\<close>
  "stringify_tags tags =
     foldl (\<lambda>m (tag, v). dict_set m tag (VStr (printable v))) [] tags"

definition gps_coordinates ::
  "('p, 'm) world \<Rightarrow> ifd_tag dict \<Rightarrow> pyvalue dict \<Rightarrow> exn + pyvalue dict" where
  "gps_coordinates w tags metadata =
     (case (map_of tags ''GPS GPSLatitude'', map_of tags ''GPS GPSLongitude'',
            map_of tags ''GPS GPSLatitudeRef'', map_of tags ''GPS GPSLongitudeRef'') of
        (Some gps_lat, Some gps_lon, Some lat_ref, Some lon_ref) \<Rightarrow>
          (case convert_gps (ArgTag gps_lat) (printable lat_ref) of
             Inl e \<Rightarrow> Inl e
           | Inr latitude \<Rightarrow>
               (case convert_gps (ArgTag gps_lon) (printable lon_ref) of
                  Inl e \<Rightarrow> Inl e
                | Inr longitude \<Rightarrow>
                    Inr (dict_set metadata ''GPS Coordinates''
                           (VStr (float_repr w latitude @ '', '' @ float_repr w longitude)))))
      | _ \<Rightarrow> Inr metadata)"

definition tag_or_unknown :: "ifd_tag dict \<Rightarrow> string \<Rightarrow> pyvalue" where
  \<comment> \<open>\<open>tags.get(key, "Unknown")\<close>\<close>
  "tag_or_unknown tags key =
     (case map_of tags key of None \<Rightarrow> VStr ''Unknown'' | Some t \<Rightarrow> VTag t)"

definition extract_exif_metadata :: "('p, 'm) world \<Rightarrow> string \<Rightarrow> exn + pyvalue dict" where
  "extract_exif_metadata w image_path =
     (case open_rb w image_path of
        Inl e \<Rightarrow> Inl e
      | Inr img_file \<Rightarrow>
          (case exifread_process_file w img_file of
             Inl e \<Rightarrow> Inl e
           | Inr tags \<Rightarrow>
               (case gps_coordinates w tags (stringify_tags tags) of
                  Inl e \<Rightarrow> Inl e
                | Inr metadata \<Rightarrow>
                    Inr (dict_set
                           (dict_set metadata ''Camera Model'' (tag_or_unknown tags ''Image Model''))
                           ''Software'' (tag_or_unknown tags ''Image Software'')))))"

section \<open>extract\_hidden\_metadata\<close>

definition split_item :: "string \<Rightarrow> string \<times> string" where
  \<comment> \<open>\<open>item.split(": ", 1) if ": " in item else (item, "Unknown")\<close>\<close>
  "split_item item = (case split_first item of None \<Rightarrow> (item, ''Unknown'') | Some kv \<Rightarrow> kv)"

definition store_items :: "pyvalue dict \<Rightarrow> string list \<Rightarrow> pyvalue dict" where
  "store_items metadata items =
     foldl (\<lambda>m item. case split_item item of (key, v) \<Rightarrow> dict_set m key (VStr v)) metadata items"

text \<open>
  The body of the \<open>try\<close>, started on the dict \<open>metadata\<close>: \<open>Inl (e, m)\<close> when \<open>e\<close> is raised
  with the dict in state \<open>m\<close>, \<open>Inr r\<close> when the body ends or returns with \<open>r\<close>.
\<close>

definition hidden_try ::
  "('p, 'm) world \<Rightarrow> string \<Rightarrow> pyvalue dict \<Rightarrow> (exn \<times> pyvalue dict) + pyvalue dict" where
  "hidden_try w file_path metadata =
     (case createParser w file_path of
        Inl e \<Rightarrow> Inl (e, metadata)
      | Inr None \<Rightarrow> Inr [(''Hidden Metadata'', VStr ''Unable to parse'')]
      | Inr (Some parser) \<Rightarrow>
          (case extractMetadata w parser of
             Inl e \<Rightarrow> Inl (e, metadata)
           | Inr None \<Rightarrow> Inr metadata
           | Inr (Some metadata_extractor) \<Rightarrow>
               (case exportPlaintext w metadata_extractor of
                  Inl e \<Rightarrow> Inl (e, metadata)
                | Inr None \<Rightarrow>
                    Inl (Exn ''TypeError'' (quoted ''NoneType'' @ '' object is not iterable''),
                         metadata)
                | Inr (Some items) \<Rightarrow> Inr (store_items metadata items))))"

definition extract_hidden_metadata :: "('p, 'm) world \<Rightarrow> string \<Rightarrow> exn + pyvalue dict" where
  "extract_hidden_metadata w file_path =
     (case hidden_try w file_path [] of
        Inl (e, metadata) \<Rightarrow> Inr (dict_set metadata ''Hidden Metadata Error'' (VStr (exn_str e)))
      | Inr metadata \<Rightarrow> Inr metadata)"

section \<open>extract\_image\_metadata\<close>

definition file_times :: "('p, 'm) world \<Rightarrow> (string \<Rightarrow> exn + pyfloat) \<Rightarrow> string \<Rightarrow> exn + string" where
  \<comment> \<open>\<open>time.ctime(os.path.getctime(image_path))\<close>, and the same of \<open>getmtime\<close>\<close>
  "file_times w stat image_path =
     (case stat image_path of Inl e \<Rightarrow> Inl e | Inr t \<Rightarrow> time_ctime w t)"

definition seed :: "('p, 'm) world \<Rightarrow> string \<Rightarrow> exn + pyvalue dict" where
  \<comment> \<open>the dict literal of lines 17 to 22\<close>
  "seed w image_path =
     (case os_path_getsize w image_path of
        Inl e \<Rightarrow> Inl e
      | Inr file_size \<Rightarrow>
          (case file_times w (os_path_getctime w) image_path of
             Inl e \<Rightarrow> Inl e
           | Inr ctime \<Rightarrow>
               (case file_times w (os_path_getmtime w) image_path of
                  Inl e \<Rightarrow> Inl e
                | Inr mtime \<Rightarrow>
                    Inr (dict_set (dict_set (dict_set (dict_set []
                           ''File Name'' (VStr (os_path_basename w image_path)))
                           ''File Size (bytes)'' (VInt file_size))
                           ''Creation Time'' (VStr ctime))
                           ''Modification Time'' (VStr mtime)))))"

definition header_fields :: "pil_image \<Rightarrow> pyvalue dict" where
  \<comment> \<open>the six assignments of the \<open>with\<close> block, in order\<close>
  "header_fields img =
     [(''Format'', (case img_format img of None \<Rightarrow> VNone | Some f \<Rightarrow> VStr f)),
      (''Mode'', VStr (img_mode img)),
      (''Size (pixels)'', VStr (str_int (img_width img) @ ''x'' @ str_int (img_height img))),
      (''Bit Depth'', (case img_bits img of None \<Rightarrow> VStr ''Unknown'' | Some b \<Rightarrow> b)),
      (''Compression'', (case info_compression img of None \<Rightarrow> VStr ''None'' | Some c \<Rightarrow> c)),
      (''ICC Profile'',
         VStr (case info_icc_profile img of
                None \<Rightarrow> ''None''
              | Some prof \<Rightarrow> if prof \<noteq> [] then ''Present'' else ''None''))]"

definition header_stage :: "('p, 'm) world \<Rightarrow> string \<Rightarrow> pyvalue dict \<Rightarrow> pyvalue dict" where
  \<comment> \<open>the \<open>try\<close> of lines 24 to 33\<close>
  "header_stage w image_path metadata =
     (case Image_open w image_path of
        Inl e \<Rightarrow> dict_set metadata ''PIL Error'' (VStr (exn_str e))
      | Inr img \<Rightarrow> dict_update metadata (header_fields img))"

definition extract_image_metadata :: "('p, 'm) world \<Rightarrow> string \<Rightarrow> exn + pyvalue dict" where
  "extract_image_metadata w image_path =
     (case seed w image_path of
        Inl e \<Rightarrow> Inl e
      | Inr metadata0 \<Rightarrow>
          (let metadata1 = header_stage w image_path metadata0
           in case (if \<not> endswith (lower image_path) ''.heic''
                    then (case extract_exif_metadata w image_path of
                            Inl e \<Rightarrow> Inl e
                          | Inr exif \<Rightarrow> Inr (dict_update metadata1 exif))
                    else Inr metadata1) of
                Inl e \<Rightarrow> Inl e
              | Inr metadata2 \<Rightarrow>
                  (case extract_hidden_metadata w image_path of
                     Inl e \<Rightarrow> Inl e
                   | Inr hidden \<Rightarrow> Inr (dict_update metadata2 hidden))))"

section \<open>Sample inputs\<close>

text \<open>
  A four by three JPEG on a filesystem that answers every call; the EXIF tags and the
  lines of the deep scanner's report are left open.
\<close>

definition sample_image :: pil_image where
  "sample_image =
     \<lparr>img_format = Some ''JPEG'', img_mode = ''RGB'', img_width = 4, img_height = 3,
      img_bits = Some (VInt 8), info_compression = None, info_icc_profile = None\<rparr>"

definition sample_world ::
  "ifd_tag dict \<Rightarrow> (exn + string list option) \<Rightarrow> (unit, unit) world" where
  "sample_world tags report =
     \<lparr>os_path_basename = (\<lambda>p. p),
      os_path_getsize = (\<lambda>p. Inr 1024),
      os_path_getctime = (\<lambda>p. Inr (Fin 0)),
      os_path_getmtime = (\<lambda>p. Inr (Fin 0)),
      time_ctime = (\<lambda>t. Inr ''Thu Jan  1 00:00:00 1970''),
      Image_open = (\<lambda>p. Inr sample_image),
      open_rb = (\<lambda>p. Inr []),
      exifread_process_file = (\<lambda>b. Inr tags),
      float_repr = (\<lambda>f. ''0.0''),
      createParser = (\<lambda>p. Inr (Some ())),
      extractMetadata = (\<lambda>p. Inr (Some ())),
      exportPlaintext = (\<lambda>m. report)\<rparr>"

definition zero_gps_tags :: "ifd_tag dict" where
  \<comment> \<open>the GPS block of a camera without a fix: every rational is 0/0\<close>
  "zero_gps_tags =
     [(''GPS GPSLatitudeRef'', \<lparr>printable = ''N'', tag_values = ValStr ''N''\<rparr>),
      (''GPS GPSLatitude'', \<lparr>printable = ''[0/0, 0/0, 0/0]'',
          tag_values = ValList [Ratio 0 0, Ratio 0 0, Ratio 0 0]\<rparr>),
      (''GPS GPSLongitudeRef'', \<lparr>printable = ''E'', tag_values = ValStr ''E''\<rparr>),
      (''GPS GPSLongitude'', \<lparr>printable = ''[0/0, 0/0, 0/0]'',
          tag_values = ValList [Ratio 0 0, Ratio 0 0, Ratio 0 0]\<rparr>)]"

section \<open>Dictionaries\<close>

lemma map_of_dict_set: "map_of (dict_set d k v) = (map_of d)(k \<mapsto> v)"
  by (induction d) (auto simp: fun_eq_iff)

lemma dict_get_dict_set:
  "dict_get (dict_set d k v) k' = (if k' = k then Some v else dict_get d k')"
  by (simp add: dict_get_def map_of_dict_set)

lemma keys_dict_set: "fst ` set (dict_set d k v) = insert k (fst ` set d)"
proof -
  have "fst ` set (dict_set d k v) = dom (map_of (dict_set d k v))"
    by (simp add: dom_map_of_conv_image_fst)
  also have "\<dots> = insert k (dom (map_of d))"
    by (simp add: map_of_dict_set)
  also have "\<dots> = insert k (fst ` set d)"
    by (simp add: dom_map_of_conv_image_fst)
  finally show ?thesis .
qed

lemma distinct_dict_set:
  "distinct (map fst d) \<Longrightarrow> distinct (map fst (dict_set d k v))"
proof (induction d)
  case Nil
  show ?case by simp
next
  case (Cons x d)
  obtain k' v' where x: "x = (k', v')" by (cases x)
  from Cons.prems have nk: "k' \<notin> fst ` set d" and dd: "distinct (map fst d)"
    by (auto simp: x)
  show ?case
  proof (cases "k' = k")
    case True
    with nk dd show ?thesis by (simp add: x)
  next
    case False
    with nk Cons.IH [OF dd] show ?thesis by (simp add: x keys_dict_set)
  qed
qed

lemma distinct_foldl_dict_set:
  "distinct (map fst d) \<Longrightarrow>
   distinct (map fst (foldl (\<lambda>m x. dict_set m (kf x) (vf x)) d xs))"
  by (induction xs arbitrary: d) (auto simp: distinct_dict_set)

lemma map_of_dict_update: "map_of (dict_update d e) = map_of d ++ map_of (rev e)"
  unfolding dict_update_def
proof (induction e arbitrary: d)
  case Nil
  show ?case by simp
next
  case (Cons x e)
  obtain k v where x: "x = (k, v)" by (cases x)
  have "map_of (foldl (\<lambda>m (k, v). dict_set m k v) (dict_set d k v) e)
          = map_of (dict_set d k v) ++ map_of (rev e)"
    by (rule Cons.IH)
  then show ?case
    by (simp add: x map_of_dict_set)
qed

lemma map_of_rev_distinct: "distinct (map fst e) \<Longrightarrow> map_of (rev e) = map_of e"
proof (induction e)
  case Nil
  show ?case by simp
next
  case (Cons x e)
  obtain k v where x: "x = (k, v)" by (cases x)
  from Cons.prems have k: "k \<notin> fst ` set e" and d: "distinct (map fst e)"
    by (auto simp: x)
  have none: "map_of e k = None"
    using k by (simp add: map_of_eq_None_iff)
  have "map_of (rev (x # e)) = map_of [(k, v)] ++ map_of e"
    by (simp add: x Cons.IH [OF d])
  also have "\<dots> = (map_of e)(k \<mapsto> v)"
    using none by (auto simp: fun_eq_iff map_add_def split: option.splits)
  finally show ?case by (simp add: x)
qed

lemma dict_get_dict_update:
  "distinct (map fst e) \<Longrightarrow>
   dict_get (dict_update d e) k = (case dict_get e k of None \<Rightarrow> dict_get d k | Some v \<Rightarrow> Some v)"
  unfolding dict_get_def
  by (simp add: map_of_dict_update map_of_rev_distinct map_add_def)

section \<open>Structure of the pipeline\<close>

lemma distinct_store_items:
  "distinct (map fst m) \<Longrightarrow> distinct (map fst (store_items m items))"
  unfolding store_items_def case_prod_beta
  by (rule distinct_foldl_dict_set)

lemma distinct_stringify_tags: "distinct (map fst (stringify_tags tags))"
  unfolding stringify_tags_def case_prod_beta
  by (rule distinct_foldl_dict_set) simp

lemma extract_hidden_metadata_returns: "\<exists>h. extract_hidden_metadata w p = Inr h"
  by (simp add: extract_hidden_metadata_def split: sum.splits prod.splits)

lemma hidden_try_raises_on_empty:
  "hidden_try w p m = Inl (e, m') \<Longrightarrow> m' = m"
  by (auto simp: hidden_try_def split: sum.splits option.splits)

lemma distinct_hidden_try:
  "hidden_try w p [] = Inr h \<Longrightarrow> distinct (map fst h)"
  by (auto simp: hidden_try_def distinct_store_items split: sum.splits option.splits)

lemma distinct_extract_hidden_metadata:
  "extract_hidden_metadata w p = Inr h \<Longrightarrow> distinct (map fst h)"
  by (auto simp: extract_hidden_metadata_def distinct_hidden_try distinct_dict_set
      dest: hidden_try_raises_on_empty split: sum.splits prod.splits)

lemma distinct_gps_coordinates:
  "distinct (map fst m) \<Longrightarrow> gps_coordinates w tags m = Inr m' \<Longrightarrow> distinct (map fst m')"
  by (auto simp: gps_coordinates_def distinct_dict_set split: option.splits sum.splits)

lemma distinct_extract_exif_metadata:
  "extract_exif_metadata w p = Inr ex \<Longrightarrow> distinct (map fst ex)"
  by (auto simp: extract_exif_metadata_def distinct_dict_set
      dest!: distinct_gps_coordinates [OF distinct_stringify_tags] split: sum.splits)

lemma header_stage_other_keys:
  assumes "k \<notin> {''Format'', ''Mode'', ''Size (pixels)'', ''Bit Depth'', ''Compression'',
                 ''ICC Profile'', ''PIL Error''}"
  shows "dict_get (header_stage w p m) k = dict_get m k"
proof (cases "Image_open w p")
  case (Inl e)
  with assms show ?thesis
    by (simp add: header_stage_def dict_get_dict_set)
next
  case (Inr img)
  have d: "distinct (map fst (header_fields img))"
    by (simp add: header_fields_def)
  have "dict_get (header_fields img) k = None"
    using assms by (simp add: header_fields_def dict_get_def)
  with Inr show ?thesis
    by (simp add: header_stage_def dict_get_dict_update [OF d])
qed

lemma header_stage_over_seed:
  "dict_get (header_stage w p m) k =
     (case dict_get (header_stage w p []) k of None \<Rightarrow> dict_get m k | Some v \<Rightarrow> Some v)"
proof (cases "Image_open w p")
  case (Inl e)
  then show ?thesis
    by (simp add: header_stage_def dict_get_def map_of_dict_set)
next
  case (Inr img)
  have d: "distinct (map fst (header_fields img))"
    by (simp add: header_fields_def)
  from Inr show ?thesis
    by (simp add: header_stage_def dict_get_dict_update [OF d]) (simp add: dict_get_def split: option.splits)
qed

lemma seed_entries:
  assumes "seed w p = Inr s"
  shows "\<exists>n c t. os_path_getsize w p = Inr n \<and> file_times w (os_path_getctime w) p = Inr c \<and>
            file_times w (os_path_getmtime w) p = Inr t \<and>
            s = [(''File Name'', VStr (os_path_basename w p)), (''File Size (bytes)'', VInt n),
                 (''Creation Time'', VStr c), (''Modification Time'', VStr t)]"
  using assms by (auto simp: seed_def split: sum.splits)

lemma extract_image_metadata_heic:
  assumes "endswith (lower p) ''.heic''"
  shows "extract_image_metadata w p =
           (case seed w p of
              Inl e \<Rightarrow> Inl e
            | Inr s \<Rightarrow>
                (case extract_hidden_metadata w p of
                   Inl e \<Rightarrow> Inl e
                 | Inr h \<Rightarrow> Inr (dict_update (header_stage w p s) h)))"
  using assms by (simp add: extract_image_metadata_def Let_def split: sum.splits)

lemma extract_image_metadata_other:
  assumes "\<not> endswith (lower p) ''.heic''"
  shows "extract_image_metadata w p =
           (case seed w p of
              Inl e \<Rightarrow> Inl e
            | Inr s \<Rightarrow>
                (case extract_exif_metadata w p of
                   Inl e \<Rightarrow> Inl e
                 | Inr ex \<Rightarrow>
                     (case extract_hidden_metadata w p of
                        Inl e \<Rightarrow> Inl e
                      | Inr h \<Rightarrow> Inr (dict_update (dict_update (header_stage w p s) ex) h))))"
  using assms by (simp add: extract_image_metadata_def Let_def split: sum.splits)

lemma exif_fields_unused:
  "seed (w\<lparr>open_rb := f, exifread_process_file := g, float_repr := r\<rparr>) p = seed w p"
  "header_stage (w\<lparr>open_rb := f, exifread_process_file := g, float_repr := r\<rparr>) p m
     = header_stage w p m"
  "extract_hidden_metadata (w\<lparr>open_rb := f, exifread_process_file := g, float_repr := r\<rparr>) p
     = extract_hidden_metadata w p"
  by (simp_all add: seed_def file_times_def header_stage_def extract_hidden_metadata_def
      hidden_try_def cong: sum.case_cong option.case_cong)

section \<open>The deep metadata scanner\<close>

text \<open>
  Claim C4. \<open>extract_hidden_metadata\<close> always returns a dict, and whenever the body of its
  \<open>try\<close> raises an exception \<open>e\<close> (in \<open>createParser\<close>, in \<open>extractMetadata\<close>, in
  \<open>exportPlaintext\<close> or when iterating its result), the dict returned is exactly
  \<open>{"Hidden Metadata Error": str(e)}\<close>, one entry: every raise happens before the first
  key is stored.
\<close>

theorem hidden_metadata_error_single_entry:
  "(\<exists>d. extract_hidden_metadata w p = Inr d) \<and>
   (\<forall>e m. hidden_try w p [] = Inl (e, m) \<longrightarrow>
      extract_hidden_metadata w p = Inr [(''Hidden Metadata Error'', VStr (exn_str e))])"
proof
  show "\<exists>d. extract_hidden_metadata w p = Inr d"
    by (rule extract_hidden_metadata_returns)
next
  show "\<forall>e m. hidden_try w p [] = Inl (e, m) \<longrightarrow>
      extract_hidden_metadata w p = Inr [(''Hidden Metadata Error'', VStr (exn_str e))]"
  proof (intro allI impI)
    fix e m
    assume raised: "hidden_try w p [] = Inl (e, m)"
    then have "m = []"
      by (rule hidden_try_raises_on_empty)
    with raised show
      "extract_hidden_metadata w p = Inr [(''Hidden Metadata Error'', VStr (exn_str e))]"
      by (simp add: extract_hidden_metadata_def)
  qed
qed

theorem hidden_metadata_error_single_entry_witness:
  "hidden_try ((sample_world [] (Inr None))\<lparr>createParser := \<lambda>p. Inl (Exn ''OSError'' ''unreadable'')\<rparr>)
      ''photo.jpg'' [] = Inl (Exn ''OSError'' ''unreadable'', []) \<and>
   extract_hidden_metadata
      ((sample_world [] (Inr None))\<lparr>createParser := \<lambda>p. Inl (Exn ''OSError'' ''unreadable'')\<rparr>)
      ''photo.jpg'' = Inr [(''Hidden Metadata Error'', VStr ''unreadable'')]"
proof -
  let ?w = "(sample_world [] (Inr None))\<lparr>createParser := \<lambda>p. Inl (Exn ''OSError'' ''unreadable'')\<rparr>"
  have raised: "hidden_try ?w ''photo.jpg'' [] = Inl (Exn ''OSError'' ''unreadable'', [])"
    by (simp add: hidden_try_def sample_world_def)
  with hidden_metadata_error_single_entry [of ?w "''photo.jpg''"] show ?thesis
    by simp
qed

section \<open>The GPS converter\<close>

text \<open>
  Claim C9. \<open>convert_gps\<close> does not validate the hemisphere reference: for every value
  and every reference other than \<open>"S"\<close> and \<open>"W"\<close>, also one outside N, S, E, W, the result is
  the result of \<open>convert_to_degrees\<close>, not negated, the same as for \<open>"N"\<close>.
\<close>

theorem convert_gps_ref_not_validated:
  assumes "ref \<noteq> ''S''" and "ref \<noteq> ''W''"
  shows "convert_gps v ref = convert_to_degrees v \<and> convert_gps v ref = convert_gps v ''N''"
  using assms by (simp add: convert_gps_def split: sum.splits)

theorem convert_gps_ref_not_validated_witness:
  "''X'' \<noteq> ''S'' \<and> ''X'' \<noteq> ''W'' \<and>
   convert_gps (ArgList [Ratio 35 1, Ratio 30 1, Ratio 0 1]) ''X''
     = convert_gps (ArgList [Ratio 35 1, Ratio 30 1, Ratio 0 1]) ''N'' \<and>
   convert_gps (ArgList [Ratio 35 1, Ratio 30 1, Ratio 0 1]) []
     = convert_gps (ArgList [Ratio 35 1, Ratio 30 1, Ratio 0 1]) ''N''"
  using
    convert_gps_ref_not_validated
      [of "''X''" "ArgList [Ratio 35 1, Ratio 30 1, Ratio 0 1]", THEN conjunct2]
    convert_gps_ref_not_validated
      [of "[]" "ArgList [Ratio 35 1, Ratio 30 1, Ratio 0 1]", THEN conjunct2]
  by simp

section \<open>The aggregator\<close>

text \<open>
  Claim C10. The container-header stage (the \<open>try\<close> around \<open>Image.open\<close>) writes only the
  keys Format, Mode, Size (pixels), Bit Depth, Compression, ICC Profile and PIL Error:
  every other key reads after the stage as before it, and the four entries seeded from
  the filesystem still hold the values they were seeded with.
\<close>

theorem header_stage_keeps_seed:
  assumes "seed w p = Inr s"
  shows "(\<forall>k. k \<notin> {''Format'', ''Mode'', ''Size (pixels)'', ''Bit Depth'', ''Compression'',
                    ''ICC Profile'', ''PIL Error''} \<longrightarrow>
              dict_get (header_stage w p s) k = dict_get s k) \<and>
         dict_get (header_stage w p s) ''File Name'' = Some (VStr (os_path_basename w p)) \<and>
         (\<exists>n. os_path_getsize w p = Inr n \<and>
              dict_get (header_stage w p s) ''File Size (bytes)'' = Some (VInt n)) \<and>
         (\<exists>c. file_times w (os_path_getctime w) p = Inr c \<and>
              dict_get (header_stage w p s) ''Creation Time'' = Some (VStr c)) \<and>
         (\<exists>t. file_times w (os_path_getmtime w) p = Inr t \<and>
              dict_get (header_stage w p s) ''Modification Time'' = Some (VStr t))"
proof -
  from seed_entries [OF assms] obtain n c t where
    n: "os_path_getsize w p = Inr n" and
    c: "file_times w (os_path_getctime w) p = Inr c" and
    t: "file_times w (os_path_getmtime w) p = Inr t" and
    s: "s = [(''File Name'', VStr (os_path_basename w p)), (''File Size (bytes)'', VInt n),
             (''Creation Time'', VStr c), (''Modification Time'', VStr t)]"
    by blast
  have frame: "\<forall>k. k \<notin> {''Format'', ''Mode'', ''Size (pixels)'', ''Bit Depth'', ''Compression'',
                    ''ICC Profile'', ''PIL Error''} \<longrightarrow>
              dict_get (header_stage w p s) k = dict_get s k"
    by (intro allI impI) (rule header_stage_other_keys)
  have "dict_get (header_stage w p s) ''File Name'' = dict_get s ''File Name''"
    by (rule header_stage_other_keys) simp
  then have name: "dict_get (header_stage w p s) ''File Name'' = Some (VStr (os_path_basename w p))"
    by (simp add: s dict_get_def)
  have "dict_get (header_stage w p s) ''File Size (bytes)'' = dict_get s ''File Size (bytes)''"
    by (rule header_stage_other_keys) simp
  then have size: "dict_get (header_stage w p s) ''File Size (bytes)'' = Some (VInt n)"
    by (simp add: s dict_get_def)
  have "dict_get (header_stage w p s) ''Creation Time'' = dict_get s ''Creation Time''"
    by (rule header_stage_other_keys) simp
  then have ct: "dict_get (header_stage w p s) ''Creation Time'' = Some (VStr c)"
    by (simp add: s dict_get_def)
  have "dict_get (header_stage w p s) ''Modification Time'' = dict_get s ''Modification Time''"
    by (rule header_stage_other_keys) simp
  then have mt: "dict_get (header_stage w p s) ''Modification Time'' = Some (VStr t)"
    by (simp add: s dict_get_def)
  show ?thesis
    apply (intro conjI)
        apply (rule frame)
       apply (rule name)
      apply (rule exI [of _ n], rule conjI [OF n size])
     apply (rule exI [of _ c], rule conjI [OF c ct])
    apply (rule exI [of _ t], rule conjI [OF t mt])
    done
qed

theorem header_stage_keeps_seed_witness:
  "seed (sample_world [] (Inr None)) ''photo.jpg'' =
     Inr [(''File Name'', VStr ''photo.jpg''), (''File Size (bytes)'', VInt 1024),
          (''Creation Time'', VStr ''Thu Jan  1 00:00:00 1970''),
          (''Modification Time'', VStr ''Thu Jan  1 00:00:00 1970'')] \<and>
   dict_get (header_stage (sample_world [] (Inr None)) ''photo.jpg''
       [(''File Name'', VStr ''photo.jpg''), (''File Size (bytes)'', VInt 1024),
        (''Creation Time'', VStr ''Thu Jan  1 00:00:00 1970''),
        (''Modification Time'', VStr ''Thu Jan  1 00:00:00 1970'')]) ''File Name''
     = Some (VStr ''photo.jpg'')"
proof -
  have s: "seed (sample_world [] (Inr None)) ''photo.jpg'' =
     Inr [(''File Name'', VStr ''photo.jpg''), (''File Size (bytes)'', VInt 1024),
          (''Creation Time'', VStr ''Thu Jan  1 00:00:00 1970''),
          (''Modification Time'', VStr ''Thu Jan  1 00:00:00 1970'')]"
    by (simp add: seed_def sample_world_def file_times_def)
  have "os_path_basename (sample_world [] (Inr None)) ''photo.jpg'' = ''photo.jpg''"
    by (simp add: sample_world_def)
  with header_stage_keeps_seed [OF s] s show ?thesis
    by simp
qed

section \<open>Evaluations on the sample inputs\<close>

lemma zero_gps_exif_raises:
  "extract_exif_metadata (sample_world zero_gps_tags rep) p
     = Inl (Exn ''ZeroDivisionError'' ''float division by zero'')"
  by (simp add: extract_exif_metadata_def sample_world_def zero_gps_tags_def gps_coordinates_def
      convert_gps_def convert_to_degrees_def as_list_def float_of_int_def fl_round_def
      float_truediv_def overflow_threshold_def)

lemma sample_seed:
  "seed (sample_world tags rep) ''photo.jpg'' =
     Inr [(''File Name'', VStr ''photo.jpg''), (''File Size (bytes)'', VInt 1024),
          (''Creation Time'', VStr ''Thu Jan  1 00:00:00 1970''),
          (''Modification Time'', VStr ''Thu Jan  1 00:00:00 1970'')]"
  by (simp add: seed_def sample_world_def file_times_def)

lemma jpg_not_heic: "\<not> endswith (lower ''photo.jpg'') ''.heic''"
  by (simp add: endswith_def lower_def lower_char_def)

lemma upper_heic: "endswith (lower ''IMG_1.HEIC'') ''.heic''"
  by (simp add: endswith_def lower_def lower_char_def)

section \<open>The EXIF tag decoder\<close>

text \<open>
  Claim C2, as stated, fails: on a stream without EXIF data, where \<open>exifread.process_file\<close>
  returns the empty dict, \<open>extract_exif_metadata\<close> does not return an empty mapping.
\<close>

theorem exif_without_tags_not_empty:
  "open_rb (sample_world [] (Inr None)) ''photo.jpg'' = Inr [] \<and>
   exifread_process_file (sample_world [] (Inr None)) [] = Inr [] \<and>
   extract_exif_metadata (sample_world [] (Inr None)) ''photo.jpg'' \<noteq> Inr []"
  by (simp add: extract_exif_metadata_def sample_world_def gps_coordinates_def stringify_tags_def
      tag_or_unknown_def)

text \<open>
  Claim C2, amended. On a readable stream for which \<open>exifread.process_file\<close> returns no
  tags, \<open>extract_exif_metadata\<close> raises nothing and returns exactly the two defaults
  \<open>"Camera Model": "Unknown"\<close> and \<open>"Software": "Unknown"\<close>, which it stores whatever the
  tags are.
\<close>

theorem exif_without_tags_returns_defaults:
  assumes "open_rb w p = Inr f" and "exifread_process_file w f = Inr []"
  shows "extract_exif_metadata w p =
           Inr [(''Camera Model'', VStr ''Unknown''), (''Software'', VStr ''Unknown'')]"
  using assms
  by (simp add: extract_exif_metadata_def gps_coordinates_def stringify_tags_def
      tag_or_unknown_def)

theorem exif_without_tags_returns_defaults_witness:
  "open_rb (sample_world [] (Inr None)) ''photo.jpg'' = Inr [] \<and>
   exifread_process_file (sample_world [] (Inr None)) [] = Inr [] \<and>
   extract_exif_metadata (sample_world [] (Inr None)) ''photo.jpg'' =
     Inr [(''Camera Model'', VStr ''Unknown''), (''Software'', VStr ''Unknown'')]"
proof -
  have o: "open_rb (sample_world [] (Inr None)) ''photo.jpg'' = Inr []"
    and t: "exifread_process_file (sample_world [] (Inr None)) [] = Inr []"
    by (simp_all add: sample_world_def)
  from exif_without_tags_returns_defaults [OF o t] o t show ?thesis
    by simp
qed

text \<open>
  Claim C3 against the code: with all four GPS tags present and a latitude whose
  rationals have denominator zero, \<open>convert_gps\<close> raises ZeroDivisionError and
  \<open>extract_exif_metadata\<close> has no handler: the exception leaves the decoder, no mapping
  is returned.
\<close>

theorem exif_propagates_gps_failure:
  "dict_get zero_gps_tags ''GPS GPSLatitude'' \<noteq> None \<and>
   dict_get zero_gps_tags ''GPS GPSLongitude'' \<noteq> None \<and>
   dict_get zero_gps_tags ''GPS GPSLatitudeRef'' \<noteq> None \<and>
   dict_get zero_gps_tags ''GPS GPSLongitudeRef'' \<noteq> None \<and>
   extract_exif_metadata (sample_world zero_gps_tags (Inr None)) ''photo.jpg''
     = Inl (Exn ''ZeroDivisionError'' ''float division by zero'')"
  by (simp add: zero_gps_exif_raises) (simp add: dict_get_def zero_gps_tags_def)

section \<open>Failures of the EXIF stage in the aggregator\<close>

text \<open>
  Claim C1 against the code: the attributes of the path are read (the seed is built),
  the EXIF stage raises, and \<open>extract_image_metadata\<close>, which wraps the container-header
  stage and the deep scan in a \<open>try\<close> but not the EXIF stage, raises with it.
\<close>

theorem extract_propagates_exif_failure:
  "seed (sample_world zero_gps_tags (Inr None)) ''photo.jpg'' =
     Inr [(''File Name'', VStr ''photo.jpg''), (''File Size (bytes)'', VInt 1024),
          (''Creation Time'', VStr ''Thu Jan  1 00:00:00 1970''),
          (''Modification Time'', VStr ''Thu Jan  1 00:00:00 1970'')] \<and>
   extract_image_metadata (sample_world zero_gps_tags (Inr None)) ''photo.jpg''
     = Inl (Exn ''ZeroDivisionError'' ''float division by zero'')"
  by (simp add: extract_image_metadata_other [OF jpg_not_heic] sample_seed zero_gps_exif_raises)

end
